theory Spec2Isabelle
  imports Main
begin

section \<open>The video history view of GlimpseGPT\<close>

text \<open>
  A shallow embedding of \<^verbatim>\<open>src/frontend/components/video-history.tsx\<close>: the
  React component \<^verbatim>\<open>VideoHistory\<close> keeps a list of history items in component
  state, loads it from the remote store (Supabase) or from \<^verbatim>\<open>localStorage\<close>,
  and offers remove, clear, reprocess and open-in-browser handlers.

  Every handler is a function from the state of the view to the state after the handler
  has run to completion. The state holds the component state \<^verbatim>\<open>history\<close> and,
  one field each, everything a handler does to the outside: the console, the toasts, the
  events dispatched on \<^verbatim>\<open>window\<close>, the browser windows opened and the calls made
  to the remote store. The handlers are modelled one at a time, each run from start to end
  (the \<^verbatim>\<open>await\<close> inside a handler is not interleaved with another handler).
\<close>

subsection \<open>Data\<close>

text \<open>
  \<^verbatim>\<open>interface HistoryItem\<close>. The field \<^verbatim>\<open>id\<close> is written \<open>id'\<close>, since
  \<open>id\<close> is the identity function of HOL; \<^verbatim>\<open>timestamp\<close> (epoch milliseconds) is
  an integer.
\<close>

record HistoryItem =
  id' :: string
  title :: string
  thumbnailUrl :: string
  url :: string
  timestamp :: int
  language :: string
  user_id :: string

text \<open>
  The argument of \<^verbatim>\<open>toast({title, description, variant})\<close>; the variant is absent
  (\<open>None\<close>) or \<^verbatim>\<open>'destructive'\<close>.
\<close>

datatype toast = Toast (toast_title: string) (toast_description: string) (toast_variant: "string option")

text \<open>
  \<^verbatim>\<open>new CustomEvent(type, {detail: {url, language}})\<close>: the only event the view
  creates.
\<close>

datatype custom_event = CustomEvent (event_type: string) (detail_url: string) (detail_language: string)

text \<open>
  The remote store client of \<^verbatim>\<open>backend/lib/supabase\<close> answers every call with an
  object \<^verbatim>\<open>{data, error}\<close> and never throws. \<^verbatim>\<open>data\<close> may be \<^verbatim>\<open>null\<close>
  (\<open>None\<close>); \<^verbatim>\<open>error\<close> is \<^verbatim>\<open>null\<close> (\<open>None\<close>) or an error object, which
  is truthy.
\<close>

datatype remote_error = RemoteError string

datatype 'a response = Response (data: "'a option") (error: "remote_error option")

datatype remote_call =
    GetVideoHistory string
  | RemoveVideoFromHistory string
  | ClearVideoHistory string

text \<open>
  What \<^verbatim>\<open>JSON.parse\<close> returns, as far as the view looks at it: the view asks
  \<^verbatim>\<open>Array.isArray\<close> and the length, and stores an array as it is into a state
  declared \<^verbatim>\<open>HistoryItem[]\<close>, so the elements of an array are taken at that type.
\<close>

datatype json_value =
    JNull
  | JBoolean bool
  | JNumber int
  | JString string
  | JObject
  | JArray "HistoryItem list"

datatype syntax_error = SyntaxError string

text \<open>
  The collaborators the component imports and does not define: \<^verbatim>\<open>JSON.parse\<close> of
  the platform (\<open>Inl\<close> when it throws) and the three operations of
  \<^verbatim>\<open>backend/lib/supabase\<close> the view calls. They are parameters of the model: every
  theorem holds for any behaviour of them.
\<close>

record env =
  JSON_parse :: "string \<Rightarrow> syntax_error + json_value"
  getVideoHistory :: "string \<Rightarrow> HistoryItem list response"
  removeVideoFromHistory :: "string \<Rightarrow> unit response"
  clearVideoHistory :: "string \<Rightarrow> unit response"

record view_state =
  history :: "HistoryItem list"
  localStorage :: "string \<rightharpoonup> string"
  console_errors :: "string list"
  toasts :: "toast list"
  dispatched :: "custom_event list"
  opened :: "(string \<times> string) list"
  remote_calls :: "remote_call list"

subsection \<open>Effects\<close>

definition setHistory :: "HistoryItem list \<Rightarrow> view_state \<Rightarrow> view_state" where
  "setHistory xs s = s\<lparr>history := xs\<rparr>"

definition console_error :: "string \<Rightarrow> view_state \<Rightarrow> view_state" where
  "console_error msg s = s\<lparr>console_errors := console_errors s @ [msg]\<rparr>"

definition show_toast :: "toast \<Rightarrow> view_state \<Rightarrow> view_state" where
  "show_toast t s = s\<lparr>toasts := toasts s @ [t]\<rparr>"

definition dispatchEvent :: "custom_event \<Rightarrow> view_state \<Rightarrow> view_state" where
  "dispatchEvent ev s = s\<lparr>dispatched := dispatched s @ [ev]\<rparr>"

definition window_open :: "string \<Rightarrow> string \<Rightarrow> view_state \<Rightarrow> view_state" where
  "window_open u target s = s\<lparr>opened := opened s @ [(u, target)]\<rparr>"

definition called :: "remote_call \<Rightarrow> view_state \<Rightarrow> view_state" where
  "called c s = s\<lparr>remote_calls := remote_calls s @ [c]\<rparr>"

subsection \<open>Strings and JSON values\<close>

text \<open>\<^verbatim>\<open>s.startsWith(t)\<close> and \<^verbatim>\<open>s.includes(t)\<close> of JavaScript strings.\<close>

fun startsWith :: "string \<Rightarrow> string \<Rightarrow> bool" where
  "startsWith s [] = True"
| "startsWith [] (c # cs) = False"
| "startsWith (x # xs) (c # cs) = (x = c \<and> startsWith xs cs)"

fun includes_str :: "string \<Rightarrow> string \<Rightarrow> bool" where
  "includes_str [] t = (t = [])"
| "includes_str (x # xs) t = (startsWith (x # xs) t \<or> includes_str xs t)"

fun Array_isArray :: "json_value \<Rightarrow> bool" where
  "Array_isArray (JArray xs) = True"
| "Array_isArray v = False"

text \<open>The elements of a parsed array (only read after \<^verbatim>\<open>Array.isArray\<close>).\<close>

fun array_items :: "json_value \<Rightarrow> HistoryItem list" where
  "array_items (JArray xs) = xs"
| "array_items v = []"

subsection \<open>The user\<close>

text \<open>
  \<^verbatim>\<open>const userId = user?.id || 'anonymous'\<close>: the argument is \<^verbatim>\<open>user?.id\<close>,
  \<open>None\<close> when nobody is signed in; the empty string is falsy.
\<close>

definition userId :: "string option \<Rightarrow> string" where
  "userId uid = (case uid of None \<Rightarrow> ''anonymous'' | Some i \<Rightarrow> if i = [] then ''anonymous'' else i)"

subsection \<open>Loading\<close>

text \<open>
  \<^verbatim>\<open>loadFromLocalStorage\<close> (lines 55 to 67). \<^verbatim>\<open>getItem\<close> gives \<^verbatim>\<open>null\<close> for
  an absent key, and the empty string is falsy. The branch \<open>Inl\<close> is the
  \<^verbatim>\<open>catch\<close> block.
\<close>

definition loadFromLocalStorage :: "env \<Rightarrow> view_state \<Rightarrow> view_state" where
  "loadFromLocalStorage E s =
    (case localStorage s ''videoHistory'' of
       None \<Rightarrow> s
     | Some savedHistory \<Rightarrow>
         if savedHistory = [] then s
         else
           (case JSON_parse E savedHistory of
              Inl err \<Rightarrow> console_error ''Failed to parse video history from localStorage'' s
            | Inr parsedHistory \<Rightarrow>
                if Array_isArray parsedHistory \<and> length (array_items parsedHistory) > 0
                then setHistory (array_items parsedHistory) s
                else s))"

text \<open>\<^verbatim>\<open>loadHistory\<close> (lines 31 to 53), for the \<^verbatim>\<open>userId\<close> of the render.\<close>

definition loadHistory :: "env \<Rightarrow> string \<Rightarrow> view_state \<Rightarrow> view_state" where
  "loadHistory E uid s =
    (if uid \<noteq> ''anonymous'' then
       (let r = getVideoHistory E uid;
            s1 = called (GetVideoHistory uid) s
        in case error r of
             Some e \<Rightarrow> loadFromLocalStorage E (console_error ''Failed to fetch video history'' s1)
           | None \<Rightarrow>
               (case data r of
                  None \<Rightarrow> loadFromLocalStorage E s1
                | Some d \<Rightarrow>
                    if length d > 0 then setHistory d s1
                    else loadFromLocalStorage E s1))
     else loadFromLocalStorage E s)"

subsection \<open>The handlers\<close>

text \<open>\<^verbatim>\<open>handleReprocess\<close> (lines 84 to 95).\<close>

definition handleReprocess :: "HistoryItem \<Rightarrow> view_state \<Rightarrow> view_state" where
  "handleReprocess item s =
    show_toast (Toast ''Reprocessing Video'' (''Reprocessing \"'' @ title item @ ''\"'') None)
      (dispatchEvent (CustomEvent ''reprocessVideo'' (url item) (language item)) s)"

text \<open>
  \<^verbatim>\<open>removeFromHistory\<close> (lines 97 to 115). The list that is filtered is the
  \<^verbatim>\<open>history\<close> of the render the handler belongs to, the state when it is called.
\<close>

definition removeFromHistory :: "env \<Rightarrow> string \<Rightarrow> view_state \<Rightarrow> view_state" where
  "removeFromHistory E i s =
    (let r = removeVideoFromHistory E i;
         s1 = called (RemoveVideoFromHistory i) s
     in case error r of
          Some e \<Rightarrow>
            show_toast (Toast ''Error'' ''Failed to remove video from history'' (Some ''destructive'')) s1
        | None \<Rightarrow>
            show_toast (Toast ''Removed from History'' ''Video removed from your history'' None)
              (setHistory (filter (\<lambda>item. id' item \<noteq> i) (history s)) s1))"

text \<open>\<^verbatim>\<open>clearHistory\<close> (lines 117 to 135).\<close>

definition clearHistory :: "env \<Rightarrow> string \<Rightarrow> view_state \<Rightarrow> view_state" where
  "clearHistory E uid s =
    (let r = clearVideoHistory E uid;
         s1 = called (ClearVideoHistory uid) s
     in case error r of
          Some e \<Rightarrow>
            show_toast (Toast ''Error'' ''Failed to clear history'' (Some ''destructive'')) s1
        | None \<Rightarrow>
            show_toast (Toast ''History Cleared'' ''Your video history has been cleared'' None)
              (setHistory [] s1))"

text \<open>
  \<^verbatim>\<open>handleOpenYoutubeVideo\<close> (lines 137 to 141). The condition is
  \<^verbatim>\<open>url && url.includes('youtube.com') || url.includes('youtu.be')\<close>, which
  JavaScript reads as \<^verbatim>\<open>(url && a) || b\<close>; the argument has the type
  \<^verbatim>\<open>string\<close>, and the empty string is falsy.
\<close>

definition handleOpenYoutubeVideo :: "string \<Rightarrow> view_state \<Rightarrow> view_state" where
  "handleOpenYoutubeVideo u s =
    (if (u \<noteq> [] \<and> includes_str u ''youtube.com'') \<or> includes_str u ''youtu.be''
     then window_open u ''_blank'' s
     else s)"

text \<open>The view when the component mounts: \<^verbatim>\<open>useState<HistoryItem[]>([])\<close>.\<close>

definition mounted :: "(string \<rightharpoonup> string) \<Rightarrow> view_state" where
  "mounted store =
    \<lparr>history = [], localStorage = store, console_errors = [], toasts = [],
     dispatched = [], opened = [], remote_calls = []\<rparr>"

subsection \<open>The host of a URL\<close>

text \<open>
  The component has no notion of a host: \<^verbatim>\<open>handleOpenYoutubeVideo\<close> looks at the
  whole string. The definitions below are the reading of "the URL's host matches the
  whitelisted set of host patterns" that the handler is compared with, for a URL of the
  shape \<^verbatim>\<open>scheme://userinfo@host:port/path?query#fragment\<close> with a named host
  (userinfo, port, path, query and fragment optional). The authority is what stands after
  the first \<^verbatim>\<open>://\<close>, up to the first \<^verbatim>\<open>/\<close>, \<^verbatim>\<open>?\<close> or \<^verbatim>\<open>#\<close>; the host
  is the authority without the userinfo (all up to the last \<^verbatim>\<open>@\<close>) and without the
  port (all from the \<^verbatim>\<open>:\<close> on), in lower case. A string without \<^verbatim>\<open>://\<close> has
  the empty host.
\<close>

definition ascii_lower :: "char \<Rightarrow> char" where
  "ascii_lower c =
    (case map_of (zip ''ABCDEFGHIJKLMNOPQRSTUVWXYZ'' ''abcdefghijklmnopqrstuvwxyz'') c of
       None \<Rightarrow> c
     | Some l \<Rightarrow> l)"

fun after_scheme :: "string \<Rightarrow> string" where
  "after_scheme [] = []"
| "after_scheme (c # cs) =
    (if startsWith (c # cs) ''://'' then drop 3 (c # cs) else after_scheme cs)"

definition url_authority :: "string \<Rightarrow> string" where
  "url_authority u =
    takeWhile (\<lambda>c. c \<noteq> CHR ''/'' \<and> c \<noteq> CHR ''?'' \<and> c \<noteq> CHR ''#'') (after_scheme u)"

definition spec_url_host :: "string \<Rightarrow> string" where
  "spec_url_host u =
    map ascii_lower
      (takeWhile (\<lambda>c. c \<noteq> CHR '':'')
        (rev (takeWhile (\<lambda>c. c \<noteq> CHR ''@'') (rev (url_authority u)))))"

text \<open>
  The patterns are the two names the handler looks for. A host is taken to match when it
  contains one of them: the widest reading of "matches a host pattern" (a host equal to
  the pattern, or a subdomain of it, contains it), so a host that fails it fails every
  narrower reading too.
\<close>

definition spec_host_whitelisted :: "string \<Rightarrow> bool" where
  "spec_host_whitelisted u =
    (includes_str (spec_url_host u) ''youtube.com'' \<or> includes_str (spec_url_host u) ''youtu.be'')"

subsection \<open>Example views\<close>

text \<open>Two items, and the text \<^verbatim>\<open>localStorage\<close> holds for the list of the first.\<close>

definition item_a :: HistoryItem where
  "item_a =
    \<lparr>id' = ''a'', title = ''First talk'', thumbnailUrl = [],
     url = ''https://www.youtube.com/watch?v=a'', timestamp = 1700000000000,
     language = ''en'', user_id = ''user-1''\<rparr>"

definition item_b :: HistoryItem where
  "item_b =
    \<lparr>id' = ''b'', title = ''Second talk'', thumbnailUrl = [],
     url = ''https://youtu.be/b'', timestamp = 1700000060000,
     language = ''hi'', user_id = ''user-1''\<rparr>"

definition saved_a :: string where
  "saved_a = ''[{\"id\":\"a\",\"title\":\"First talk\",\"thumbnailUrl\":\"\",\"url\":\"https://www.youtube.com/watch?v=a\",\"timestamp\":1700000000000,\"language\":\"en\",\"user_id\":\"user-1\"}]''"

text \<open>
  \<^verbatim>\<open>JSON.parse\<close> on the texts the examples store: the list of the first item, the
  empty array, an object, and (the last branch) the text \<^verbatim>\<open>{oops\<close>, which is not
  JSON.
\<close>

definition example_parse :: "string \<Rightarrow> syntax_error + json_value" where
  "example_parse raw =
    (if raw = saved_a then Inr (JArray [item_a])
     else if raw = ''[]'' then Inr (JArray [])
     else if raw = ''{}'' then Inr JObject
     else Inl (SyntaxError ''Unexpected token''))"

text \<open>A remote store that answers every call with an error.\<close>

definition remote_down :: env where
  "remote_down =
    \<lparr>JSON_parse = example_parse,
     getVideoHistory = (\<lambda>u. Response None (Some (RemoteError ''fetch failed''))),
     removeVideoFromHistory = (\<lambda>i. Response None (Some (RemoteError ''fetch failed''))),
     clearVideoHistory = (\<lambda>u. Response None (Some (RemoteError ''fetch failed'')))\<rparr>"

text \<open>A remote store that answers without error and has no row for any user.\<close>

definition remote_empty :: env where
  "remote_empty =
    \<lparr>JSON_parse = example_parse,
     getVideoHistory = (\<lambda>u. Response (Some []) None),
     removeVideoFromHistory = (\<lambda>i. Response None None),
     clearVideoHistory = (\<lambda>u. Response None None)\<rparr>"

text \<open>A view that shows both items, over a given \<^verbatim>\<open>localStorage\<close>.\<close>

definition showing_both :: "(string \<rightharpoonup> string) \<Rightarrow> view_state" where
  "showing_both store = setHistory [item_a, item_b] (mounted store)"

text \<open>
  An anonymous visitor's view after a first load from a good slot, when the slot has since
  been overwritten with text that is not JSON.
\<close>

definition slot_corrupted_after_load :: view_state where
  "slot_corrupted_after_load =
    (loadHistory remote_down ''anonymous'' (mounted [''videoHistory'' \<mapsto> saved_a]))
      \<lparr>localStorage := [''videoHistory'' \<mapsto> ''{oops'']\<rparr>"

text \<open>A remote store that answers without error and holds both items for every user.\<close>

definition remote_ok :: env where
  "remote_ok =
    \<lparr>JSON_parse = example_parse,
     getVideoHistory = (\<lambda>u. Response (Some [item_a, item_b]) None),
     removeVideoFromHistory = (\<lambda>i. Response None None),
     clearVideoHistory = (\<lambda>u. Response None None)\<rparr>"

text \<open>
  The view of a signed-in user after a load the remote store answered, on a device whose
  slot holds the empty array.
\<close>

definition shown_from_remote :: view_state where
  "shown_from_remote = loadHistory remote_ok ''user-1'' (mounted [''videoHistory'' \<mapsto> ''[]''])"

section \<open>Properties\<close>

lemma startsWith_iff: "startsWith s t \<longleftrightarrow> (\<exists>ss. s = t @ ss)"
  by (induction s t rule: startsWith.induct) auto

lemmas effect_defs =
  setHistory_def console_error_def show_toast_def dispatchEvent_def window_open_def called_def

lemma includes_str_iff: "includes_str s t \<longleftrightarrow> (\<exists>ps ss. s = ps @ t @ ss)"
proof (induction s)
  case Nil
  then show ?case by auto
next
  case (Cons x xs)
  show ?case
  proof
    assume "includes_str (x # xs) t"
    then consider "startsWith (x # xs) t" | "includes_str xs t" by auto
    then show "\<exists>ps ss. x # xs = ps @ t @ ss"
    proof cases
      case 1
      then obtain ss where "x # xs = t @ ss" by (auto simp: startsWith_iff)
      then have "x # xs = [] @ t @ ss" by simp
      then show ?thesis by blast
    next
      case 2
      then obtain ps ss where "xs = ps @ t @ ss" using Cons.IH by auto
      then have "x # xs = (x # ps) @ t @ ss" by simp
      then show ?thesis by blast
    qed
  next
    assume "\<exists>ps ss. x # xs = ps @ t @ ss"
    then obtain ps ss where e: "x # xs = ps @ t @ ss" by auto
    show "includes_str (x # xs) t"
    proof (cases ps)
      case Nil
      with e have "startsWith (x # xs) t" by (auto simp: startsWith_iff)
      then show ?thesis by simp
    next
      case (Cons p ps')
      with e have "xs = ps' @ t @ ss" by simp
      then have "includes_str xs t" using Cons.IH by blast
      then show ?thesis by simp
    qed
  qed
qed

subsection \<open>The local read\<close>

text \<open>What the local read leaves alone.\<close>

lemma loadFromLocalStorage_frame:
  "localStorage (loadFromLocalStorage E s) = localStorage s"
  "toasts (loadFromLocalStorage E s) = toasts s"
  "dispatched (loadFromLocalStorage E s) = dispatched s"
  "opened (loadFromLocalStorage E s) = opened s"
  "remote_calls (loadFromLocalStorage E s) = remote_calls s"
  by (simp_all add: loadFromLocalStorage_def effect_defs split: option.splits sum.splits)

text \<open>The list after the local read depends on the list before and on the slot only.\<close>

lemma loadFromLocalStorage_history_cong:
  "history s = history t \<Longrightarrow> localStorage s = localStorage t \<Longrightarrow>
   history (loadFromLocalStorage E s) = history (loadFromLocalStorage E t)"
  by (simp add: loadFromLocalStorage_def effect_defs split: option.splits sum.splits)

lemma loadFromLocalStorage_parsed:
  "localStorage s ''videoHistory'' = Some raw \<Longrightarrow> raw \<noteq> [] \<Longrightarrow>
   JSON_parse E raw = Inr (JArray xs) \<Longrightarrow> xs \<noteq> [] \<Longrightarrow>
   history (loadFromLocalStorage E s) = xs"
  by (auto simp add: loadFromLocalStorage_def effect_defs split: option.splits sum.splits)

lemma loadFromLocalStorage_nonempty:
  "history s \<noteq> [] \<Longrightarrow> history (loadFromLocalStorage E s) \<noteq> []"
  by (auto simp add: loadFromLocalStorage_def effect_defs split: option.splits sum.splits)

subsection \<open>Loading when the remote store fails\<close>

lemma loadFromLocalStorage_unchanged:
  assumes "\<not> (\<exists>raw xs. localStorage s ''videoHistory'' = Some raw \<and> raw \<noteq> []
                \<and> JSON_parse E raw = Inr (JArray xs) \<and> xs \<noteq> [])"
  shows "history (loadFromLocalStorage E s) = history s"
proof (cases "localStorage s ''videoHistory''")
  case None
  then show ?thesis by (simp add: loadFromLocalStorage_def)
next
  case (Some raw)
  show ?thesis
  proof (cases "raw = []")
    case True
    with Some show ?thesis by (simp add: loadFromLocalStorage_def)
  next
    case False
    show ?thesis
    proof (cases "JSON_parse E raw")
      case (Inl err)
      with Some False show ?thesis by (simp add: loadFromLocalStorage_def effect_defs)
    next
      case (Inr v)
      with Some False assms have "\<not> (Array_isArray v \<and> length (array_items v) > 0)"
        by (cases v) auto
      with Some False Inr show ?thesis by (auto simp add: loadFromLocalStorage_def)
    qed
  qed
qed

text \<open>
  Claim C1 says that for a signed-in user, when \<^verbatim>\<open>getVideoHistory\<close> answers with
  an error, the load returns exactly the list parsed from the local slot. The local read
  sets the list only from a non-empty array. A signed-in user's view shows the two items
  of an earlier load the remote store answered, and the slot holds the empty array; on the
  reload the remote store fails, the list parsed from the slot is empty, and the view still
  shows the two items.
\<close>

theorem load_remote_error_shown_list_counterexample:
  "''user-1'' \<noteq> ''anonymous''
   \<and> error (getVideoHistory remote_down ''user-1'') = Some (RemoteError ''fetch failed'')
   \<and> localStorage shown_from_remote ''videoHistory'' = Some ''[]''
   \<and> JSON_parse remote_down ''[]'' = Inr (JArray [])
   \<and> history (loadHistory remote_down ''user-1'' shown_from_remote) = [item_a, item_b]
   \<and> history (loadHistory remote_down ''user-1'' shown_from_remote) \<noteq> []"
  by (simp add: shown_from_remote_def loadHistory_def loadFromLocalStorage_def
      remote_down_def remote_ok_def mounted_def example_parse_def saved_a_def effect_defs)

text \<open>
  Claim C1, as the component has it. For a signed-in user, when \<^verbatim>\<open>getVideoHistory\<close>
  answers with an error, \<^verbatim>\<open>loadHistory\<close> logs the error and is the local read
  \<^verbatim>\<open>loadFromLocalStorage\<close>. The list after the load is the list parsed from the slot
  when the slot holds the text of a non-empty array, and in every other case (no slot, the
  empty text, text that is not JSON, a value that is not an array, the empty array) it is
  the list the view showed before. No toast is shown and the slot is not written.
\<close>

theorem load_remote_error_is_local_read:
  assumes "uid \<noteq> ''anonymous''" and "error (getVideoHistory E uid) = Some e"
  shows "loadHistory E uid s =
           loadFromLocalStorage E
             (console_error ''Failed to fetch video history'' (called (GetVideoHistory uid) s))
         \<and> history (loadHistory E uid s) = history (loadFromLocalStorage E s)
         \<and> (\<forall>raw xs. localStorage s ''videoHistory'' = Some raw \<and> raw \<noteq> []
                \<and> JSON_parse E raw = Inr (JArray xs) \<and> xs \<noteq> []
              \<longrightarrow> history (loadHistory E uid s) = xs)
         \<and> (\<not> (\<exists>raw xs. localStorage s ''videoHistory'' = Some raw \<and> raw \<noteq> []
                \<and> JSON_parse E raw = Inr (JArray xs) \<and> xs \<noteq> [])
              \<longrightarrow> history (loadHistory E uid s) = history s)
         \<and> toasts (loadHistory E uid s) = toasts s
         \<and> localStorage (loadHistory E uid s) = localStorage s"
proof -
  let ?s1 = "console_error ''Failed to fetch video history'' (called (GetVideoHistory uid) s)"
  have a: "loadHistory E uid s = loadFromLocalStorage E ?s1"
    using assms by (simp add: loadHistory_def Let_def)
  have b: "history (loadFromLocalStorage E ?s1) = history (loadFromLocalStorage E s)"
    by (rule loadFromLocalStorage_history_cong) (simp_all add: effect_defs)
  have c: "history (loadFromLocalStorage E s) = xs"
    if "localStorage s ''videoHistory'' = Some raw" "raw \<noteq> []"
      "JSON_parse E raw = Inr (JArray xs)" "xs \<noteq> []"
    for raw xs
    using that by (rule loadFromLocalStorage_parsed)
  have d: "history (loadFromLocalStorage E s) = history s"
    if "\<not> (\<exists>raw xs. localStorage s ''videoHistory'' = Some raw \<and> raw \<noteq> []
                \<and> JSON_parse E raw = Inr (JArray xs) \<and> xs \<noteq> [])"
    using that by (rule loadFromLocalStorage_unchanged)
  have f: "toasts (loadFromLocalStorage E ?s1) = toasts s"
    "localStorage (loadFromLocalStorage E ?s1) = localStorage s"
    by (simp_all add: loadFromLocalStorage_frame effect_defs)
  have ab: "history (loadHistory E uid s) = history (loadFromLocalStorage E s)"
    using a b by simp
  show ?thesis
  proof (intro conjI allI impI)
    show "loadHistory E uid s = loadFromLocalStorage E ?s1" by (rule a)
    show "history (loadHistory E uid s) = history (loadFromLocalStorage E s)" by (rule ab)
    show "history (loadHistory E uid s) = xs"
      if "localStorage s ''videoHistory'' = Some raw \<and> raw \<noteq> []
          \<and> JSON_parse E raw = Inr (JArray xs) \<and> xs \<noteq> []" for raw xs
      using that ab c by simp
    show "history (loadHistory E uid s) = history s"
      if "\<not> (\<exists>raw xs. localStorage s ''videoHistory'' = Some raw \<and> raw \<noteq> []
                \<and> JSON_parse E raw = Inr (JArray xs) \<and> xs \<noteq> [])"
      using d [OF that] ab by simp
    show "toasts (loadHistory E uid s) = toasts s" using a f by simp
    show "localStorage (loadHistory E uid s) = localStorage s" using a f by simp
  qed
qed

theorem load_remote_error_is_local_read_witness:
  "''user-1'' \<noteq> ''anonymous''
   \<and> error (getVideoHistory remote_down ''user-1'') = Some (RemoteError ''fetch failed'')
   \<and> localStorage (showing_both [''videoHistory'' \<mapsto> saved_a]) ''videoHistory'' = Some saved_a
   \<and> saved_a \<noteq> []
   \<and> JSON_parse remote_down saved_a = Inr (JArray [item_a])
   \<and> history (loadHistory remote_down ''user-1'' (showing_both [''videoHistory'' \<mapsto> saved_a])) = [item_a]
   \<and> localStorage (showing_both Map.empty) ''videoHistory'' = None
   \<and> history (loadHistory remote_down ''user-1'' (showing_both Map.empty)) = [item_a, item_b]"
proof -
  have h1: "''user-1'' \<noteq> ''anonymous''" by simp
  have h2: "error (getVideoHistory remote_down ''user-1'') = Some (RemoteError ''fetch failed'')"
    by (simp add: remote_down_def)
  note thm1 = load_remote_error_is_local_read [OF h1 h2, of "showing_both [''videoHistory'' \<mapsto> saved_a]"]
  note thm2 = load_remote_error_is_local_read [OF h1 h2, of "showing_both Map.empty"]
  have a1: "localStorage (showing_both [''videoHistory'' \<mapsto> saved_a]) ''videoHistory'' = Some saved_a"
    by (simp add: showing_both_def mounted_def setHistory_def)
  have a2: "saved_a \<noteq> []" by (simp add: saved_a_def)
  have a3: "JSON_parse remote_down saved_a = Inr (JArray [item_a])"
    by (simp add: remote_down_def example_parse_def)
  have r1: "history (loadHistory remote_down ''user-1'' (showing_both [''videoHistory'' \<mapsto> saved_a])) = [item_a]"
    using thm1 a1 a2 a3 by blast
  have b1: "localStorage (showing_both Map.empty) ''videoHistory'' = None"
    by (simp add: showing_both_def mounted_def setHistory_def)
  have s: "history (showing_both Map.empty) = [item_a, item_b]"
    by (simp add: showing_both_def mounted_def setHistory_def)
  have b2: "\<not> (\<exists>raw xs. localStorage (showing_both Map.empty) ''videoHistory'' = Some raw \<and> raw \<noteq> []
                \<and> JSON_parse remote_down raw = Inr (JArray xs) \<and> xs \<noteq> [])"
    using b1 by simp
  have "history (loadHistory remote_down ''user-1'' (showing_both Map.empty))
        = history (showing_both Map.empty)"
    using thm2 b2 by blast
  then have r2: "history (loadHistory remote_down ''user-1'' (showing_both Map.empty)) = [item_a, item_b]"
    using s by simp
  from h1 h2 a1 a2 a3 r1 b1 r2 show ?thesis by (intro conjI)
qed

subsection \<open>Writes that fail\<close>

text \<open>
  Claim C2. When \<^verbatim>\<open>removeVideoFromHistory\<close> answers with an error,
  \<^verbatim>\<open>removeFromHistory\<close> leaves the list as it was and shows one failure toast; when
  \<^verbatim>\<open>clearVideoHistory\<close> answers with an error, \<^verbatim>\<open>clearHistory\<close> does the
  same. This holds for every list and every id.
\<close>

theorem write_failure_keeps_history:
  "(error (removeVideoFromHistory E i) \<noteq> None \<longrightarrow>
      history (removeFromHistory E i s) = history s
      \<and> toasts (removeFromHistory E i s) =
          toasts s @ [Toast ''Error'' ''Failed to remove video from history'' (Some ''destructive'')])
   \<and> (error (clearVideoHistory E uid) \<noteq> None \<longrightarrow>
      history (clearHistory E uid s) = history s
      \<and> toasts (clearHistory E uid s) =
          toasts s @ [Toast ''Error'' ''Failed to clear history'' (Some ''destructive'')])"
  by (auto simp add: removeFromHistory_def clearHistory_def Let_def effect_defs split: option.splits)

theorem write_failure_keeps_history_witness:
  "error (removeVideoFromHistory remote_down ''a'') \<noteq> None
   \<and> history (removeFromHistory remote_down ''a'' (showing_both Map.empty)) = [item_a, item_b]
   \<and> error (clearVideoHistory remote_down ''user-1'') \<noteq> None
   \<and> history (clearHistory remote_down ''user-1'' (showing_both Map.empty)) = [item_a, item_b]"
proof -
  have h1: "error (removeVideoFromHistory remote_down ''a'') \<noteq> None"
    by (simp add: remote_down_def)
  have h2: "error (clearVideoHistory remote_down ''user-1'') \<noteq> None"
    by (simp add: remote_down_def)
  have s: "history (showing_both Map.empty) = [item_a, item_b]"
    by (simp add: showing_both_def mounted_def setHistory_def)
  show ?thesis
    using h1 h2 s
      write_failure_keeps_history [of remote_down "''a''" "showing_both Map.empty" "''user-1''"]
    by simp
qed

subsection \<open>Removing an item\<close>

lemma filter_neq_distinct_split:
  assumes "distinct (map f xs)" and "e \<in> set xs"
  shows "\<exists>ys zs. xs = ys @ e # zs \<and> filter (\<lambda>x. f x \<noteq> f e) xs = ys @ zs"
proof -
  from assms(2) obtain ys zs where xs: "xs = ys @ e # zs"
    by (auto simp: in_set_conv_decomp)
  with assms(1) have "\<forall>y \<in> set ys \<union> set zs. f y \<noteq> f e"
    by (force simp: image_iff)
  then have "filter (\<lambda>x. f x \<noteq> f e) ys = ys" and "filter (\<lambda>x. f x \<noteq> f e) zs = zs"
    by (auto simp: filter_id_conv)
  with xs have "filter (\<lambda>x. f x \<noteq> f e) xs = ys @ zs" by simp
  with xs show ?thesis by blast
qed

text \<open>
  Claim C3. When an item \<open>e\<close> of the list is removed and the remote store answers without
  error, the list becomes the old list without the items whose id is the id of \<open>e\<close>: the
  other items stay, in their order. Where the ids of the list are distinct (the invariant of
  the data model), exactly the one item \<open>e\<close> is cut out: the old list is
  \<open>ys @ e # zs\<close> and the new one is \<open>ys @ zs\<close>.
\<close>

theorem remove_success_drops_that_id:
  assumes "e \<in> set (history s)" and "error (removeVideoFromHistory E (id' e)) = None"
  shows "history (removeFromHistory E (id' e) s) = filter (\<lambda>x. id' x \<noteq> id' e) (history s)
         \<and> (distinct (map id' (history s)) \<longrightarrow>
              (\<exists>ys zs. history s = ys @ e # zs \<and> history (removeFromHistory E (id' e) s) = ys @ zs))"
proof -
  have a: "history (removeFromHistory E (id' e) s) = filter (\<lambda>x. id' x \<noteq> id' e) (history s)"
    using assms(2) by (simp add: removeFromHistory_def Let_def effect_defs)
  show ?thesis
    using a filter_neq_distinct_split [of id' "history s" e] assms(1) by auto
qed

theorem remove_success_drops_that_id_witness:
  "item_a \<in> set (history (showing_both Map.empty))
   \<and> error (removeVideoFromHistory remote_empty (id' item_a)) = None
   \<and> distinct (map id' (history (showing_both Map.empty)))
   \<and> history (removeFromHistory remote_empty (id' item_a) (showing_both Map.empty)) = [item_b]"
proof -
  have s: "history (showing_both Map.empty) = [item_a, item_b]"
    by (simp add: showing_both_def mounted_def setHistory_def)
  have h1: "item_a \<in> set (history (showing_both Map.empty))"
    by (simp add: s)
  have h2: "error (removeVideoFromHistory remote_empty (id' item_a)) = None"
    by (simp add: remote_empty_def)
  have d: "distinct (map id' (history (showing_both Map.empty)))"
    by (simp add: s item_a_def item_b_def)
  have "history (removeFromHistory remote_empty (id' item_a) (showing_both Map.empty))
        = filter (\<lambda>x. id' x \<noteq> id' item_a) (history (showing_both Map.empty))"
    using remove_success_drops_that_id [OF h1 h2] by blast
  then have "history (removeFromHistory remote_empty (id' item_a) (showing_both Map.empty)) = [item_b]"
    by (simp add: s item_a_def item_b_def)
  with h1 h2 d show ?thesis by simp
qed

subsection \<open>Loading when the remote store has no rows\<close>

text \<open>
  Claim C4. For a signed-in user, when \<^verbatim>\<open>getVideoHistory\<close> answers without error
  and with no rows (\<^verbatim>\<open>data\<close> is \<^verbatim>\<open>null\<close> or the empty array),
  \<^verbatim>\<open>loadHistory\<close> does not stop there: it is the local read, so a non-empty array
  in the slot becomes the list.
\<close>

theorem load_remote_empty_reads_local:
  assumes "uid \<noteq> ''anonymous''" and "error (getVideoHistory E uid) = None"
    and "data (getVideoHistory E uid) = None \<or> data (getVideoHistory E uid) = Some []"
  shows "loadHistory E uid s = loadFromLocalStorage E (called (GetVideoHistory uid) s)
         \<and> history (loadHistory E uid s) = history (loadFromLocalStorage E s)
         \<and> (\<forall>raw xs. localStorage s ''videoHistory'' = Some raw \<and> raw \<noteq> []
                \<and> JSON_parse E raw = Inr (JArray xs) \<and> xs \<noteq> []
              \<longrightarrow> history (loadHistory E uid s) = xs)"
proof -
  let ?s1 = "called (GetVideoHistory uid) s"
  have a: "loadHistory E uid s = loadFromLocalStorage E ?s1"
    using assms by (auto simp add: loadHistory_def Let_def)
  have b: "history (loadFromLocalStorage E ?s1) = history (loadFromLocalStorage E s)"
    by (rule loadFromLocalStorage_history_cong) (simp_all add: effect_defs)
  have c: "history (loadFromLocalStorage E s) = xs"
    if "localStorage s ''videoHistory'' = Some raw" "raw \<noteq> []"
      "JSON_parse E raw = Inr (JArray xs)" "xs \<noteq> []"
    for raw xs
    using that by (rule loadFromLocalStorage_parsed)
  show ?thesis using a b c by auto
qed

theorem load_remote_empty_reads_local_witness:
  "''user-1'' \<noteq> ''anonymous''
   \<and> error (getVideoHistory remote_empty ''user-1'') = None
   \<and> data (getVideoHistory remote_empty ''user-1'') = Some []
   \<and> history (loadHistory remote_empty ''user-1'' (mounted [''videoHistory'' \<mapsto> saved_a])) = [item_a]"
proof -
  have h1: "''user-1'' \<noteq> ''anonymous''" by simp
  have h2: "error (getVideoHistory remote_empty ''user-1'') = None"
    by (simp add: remote_empty_def)
  have h3: "data (getVideoHistory remote_empty ''user-1'') = Some []"
    by (simp add: remote_empty_def)
  have h3': "data (getVideoHistory remote_empty ''user-1'') = None
             \<or> data (getVideoHistory remote_empty ''user-1'') = Some []"
    using h3 by simp
  have l: "history (loadFromLocalStorage remote_empty (mounted [''videoHistory'' \<mapsto> saved_a])) = [item_a]"
    by (simp add: loadFromLocalStorage_def remote_empty_def mounted_def
        setHistory_def example_parse_def saved_a_def)
  have "history (loadHistory remote_empty ''user-1'' (mounted [''videoHistory'' \<mapsto> saved_a]))
        = history (loadFromLocalStorage remote_empty (mounted [''videoHistory'' \<mapsto> saved_a]))"
    using load_remote_empty_reads_local [OF h1 h2 h3'] by blast
  with h1 h2 h3 l show ?thesis by simp
qed

subsection \<open>An unreadable slot\<close>

text \<open>
  Claim C5 says that for an anonymous visitor a slot holding invalid JSON, or a value that
  is not an array, makes the load return the empty list. The catch block only logs, and
  the list is set nowhere on that path, so the list that was shown stays: after a first
  load from a good slot, a reload over a slot overwritten with \<^verbatim>\<open>{oops\<close> still
  shows the item of the first load.
\<close>

theorem anonymous_unreadable_slot_counterexample:
  "localStorage slot_corrupted_after_load ''videoHistory'' = Some ''{oops''
   \<and> JSON_parse remote_down ''{oops'' = Inl (SyntaxError ''Unexpected token'')
   \<and> history (loadHistory remote_down ''anonymous'' slot_corrupted_after_load) = [item_a]
   \<and> history (loadHistory remote_down ''anonymous'' slot_corrupted_after_load) \<noteq> []"
  by (simp add: slot_corrupted_after_load_def loadHistory_def loadFromLocalStorage_def
      remote_down_def mounted_def example_parse_def saved_a_def effect_defs)

text \<open>
  Claim C5, as the component has it. For an anonymous visitor and a slot whose text
  \<^verbatim>\<open>JSON.parse\<close> rejects, or parses to a value that is not an array, the load leaves
  the list as it was (so the empty list at the first load, where the list starts empty),
  shows no toast, calls no remote operation and leaves the slot alone: the failure ends in
  the catch block.
\<close>

theorem anonymous_unreadable_slot_keeps_list:
  assumes "localStorage s ''videoHistory'' = Some raw"
    and "(\<exists>err. JSON_parse E raw = Inl err) \<or> (\<exists>v. JSON_parse E raw = Inr v \<and> \<not> Array_isArray v)"
  shows "history (loadHistory E ''anonymous'' s) = history s
         \<and> (history s = [] \<longrightarrow> history (loadHistory E ''anonymous'' s) = [])
         \<and> toasts (loadHistory E ''anonymous'' s) = toasts s
         \<and> remote_calls (loadHistory E ''anonymous'' s) = remote_calls s
         \<and> localStorage (loadHistory E ''anonymous'' s) = localStorage s"
  using assms
  by (auto simp add: loadHistory_def loadFromLocalStorage_def effect_defs)

theorem anonymous_unreadable_slot_keeps_list_witness:
  "localStorage (mounted [''videoHistory'' \<mapsto> ''{oops'']) ''videoHistory'' = Some ''{oops''
   \<and> JSON_parse remote_down ''{oops'' = Inl (SyntaxError ''Unexpected token'')
   \<and> history (loadHistory remote_down ''anonymous'' (mounted [''videoHistory'' \<mapsto> ''{oops''])) = []
   \<and> localStorage (showing_both [''videoHistory'' \<mapsto> ''{}'']) ''videoHistory'' = Some ''{}''
   \<and> JSON_parse remote_down ''{}'' = Inr JObject
   \<and> history (loadHistory remote_down ''anonymous'' (showing_both [''videoHistory'' \<mapsto> ''{}''])) = [item_a, item_b]"
proof -
  have a1: "localStorage (mounted [''videoHistory'' \<mapsto> ''{oops'']) ''videoHistory'' = Some ''{oops''"
    by (simp add: mounted_def)
  have a2: "JSON_parse remote_down ''{oops'' = Inl (SyntaxError ''Unexpected token'')"
    by (simp add: remote_down_def example_parse_def saved_a_def)
  have a3: "(\<exists>err. JSON_parse remote_down ''{oops'' = Inl err)
            \<or> (\<exists>v. JSON_parse remote_down ''{oops'' = Inr v \<and> \<not> Array_isArray v)"
    using a2 by simp
  have b1: "localStorage (showing_both [''videoHistory'' \<mapsto> ''{}'']) ''videoHistory'' = Some ''{}''"
    by (simp add: showing_both_def mounted_def setHistory_def)
  have b2: "JSON_parse remote_down ''{}'' = Inr JObject"
    by (simp add: remote_down_def example_parse_def saved_a_def)
  have b3: "(\<exists>err. JSON_parse remote_down ''{}'' = Inl err)
            \<or> (\<exists>v. JSON_parse remote_down ''{}'' = Inr v \<and> \<not> Array_isArray v)"
    using b2 by simp
  have m: "history (mounted [''videoHistory'' \<mapsto> ''{oops'']) = []"
    by (simp add: mounted_def)
  have s: "history (showing_both [''videoHistory'' \<mapsto> ''{}'']) = [item_a, item_b]"
    by (simp add: showing_both_def mounted_def setHistory_def)
  have r1: "history (loadHistory remote_down ''anonymous'' (mounted [''videoHistory'' \<mapsto> ''{oops''])) = []"
    using anonymous_unreadable_slot_keeps_list [OF a1 a3] m by simp
  have r2: "history (loadHistory remote_down ''anonymous'' (showing_both [''videoHistory'' \<mapsto> ''{}'']))
            = [item_a, item_b]"
    using anonymous_unreadable_slot_keeps_list [OF b1 b3] s by simp
  show ?thesis using a1 a2 b1 b2 r1 r2 by simp
qed

subsection \<open>The anonymous visitor\<close>

text \<open>
  Claim C6. For the user id \<^verbatim>\<open>'anonymous'\<close> (which is also the id when nobody is
  signed in, or the id is the empty string), \<^verbatim>\<open>loadHistory\<close> is the local read and
  adds no call to the calls made to the remote store.
\<close>

theorem anonymous_load_never_calls_remote:
  "loadHistory E ''anonymous'' s = loadFromLocalStorage E s
   \<and> remote_calls (loadHistory E ''anonymous'' s) = remote_calls s
   \<and> remote_calls (loadHistory E (userId None) s) = remote_calls s
   \<and> remote_calls (loadHistory E (userId (Some [])) s) = remote_calls s"
  by (simp add: loadHistory_def userId_def loadFromLocalStorage_frame)

subsection \<open>Reprocessing\<close>

text \<open>
  Claim C7. \<^verbatim>\<open>handleReprocess\<close> on an item dispatches exactly one event,
  \<^verbatim>\<open>reprocessVideo\<close> with the detail \<^verbatim>\<open>{url: item.url, language: item.language}\<close>,
  and changes neither the list, nor the slot, nor the calls made to the remote store.
\<close>

theorem reprocess_dispatches_one_event:
  "dispatched (handleReprocess e s) = dispatched s @ [CustomEvent ''reprocessVideo'' (url e) (language e)]
   \<and> history (handleReprocess e s) = history s
   \<and> localStorage (handleReprocess e s) = localStorage s
   \<and> remote_calls (handleReprocess e s) = remote_calls s"
  by (simp add: handleReprocess_def effect_defs)

subsection \<open>Clearing\<close>

text \<open>
  Claim C9. When the remote store answers two \<^verbatim>\<open>clearVideoHistory\<close> calls in a row
  without error (the second finds the rows already gone), both runs of
  \<^verbatim>\<open>clearHistory\<close> succeed: each shows the toast \<^verbatim>\<open>History Cleared\<close>, and the
  list is empty after the first and after the second. The first conjunct is the single
  successful clear, from any list.
\<close>

theorem clear_twice_leaves_empty:
  assumes "error (clearVideoHistory E1 uid) = None" and "error (clearVideoHistory E2 uid) = None"
  shows "history (clearHistory E1 uid s) = []
         \<and> toasts (clearHistory E1 uid s) =
             toasts s @ [Toast ''History Cleared'' ''Your video history has been cleared'' None]
         \<and> history (clearHistory E2 uid (clearHistory E1 uid s)) = []
         \<and> toasts (clearHistory E2 uid (clearHistory E1 uid s)) =
             toasts s @ [Toast ''History Cleared'' ''Your video history has been cleared'' None,
                         Toast ''History Cleared'' ''Your video history has been cleared'' None]
         \<and> remote_calls (clearHistory E2 uid (clearHistory E1 uid s)) =
             remote_calls s @ [ClearVideoHistory uid, ClearVideoHistory uid]"
  using assms by (simp add: clearHistory_def Let_def effect_defs)

theorem clear_twice_leaves_empty_witness:
  "error (clearVideoHistory remote_empty ''user-1'') = None
   \<and> history (showing_both Map.empty) = [item_a, item_b]
   \<and> history (clearHistory remote_empty ''user-1'' (showing_both Map.empty)) = []
   \<and> history (clearHistory remote_empty ''user-1''
        (clearHistory remote_empty ''user-1'' (showing_both Map.empty))) = []"
proof -
  have h: "error (clearVideoHistory remote_empty ''user-1'') = None"
    by (simp add: remote_empty_def)
  have s: "history (showing_both Map.empty) = [item_a, item_b]"
    by (simp add: showing_both_def mounted_def setHistory_def)
  show ?thesis
    using h s clear_twice_leaves_empty [OF h h, of "showing_both Map.empty"] by simp
qed

subsection \<open>A local read never empties the list\<close>

text \<open>
  Claim C10. When the slot is absent, or its text parses to the empty array, the local
  read leaves the list as it was, whatever the list. And no load empties a list that shows
  something: not the local read, for any slot, and so not \<^verbatim>\<open>loadHistory\<close> either,
  for any user and any answer of the remote store.
\<close>

theorem local_read_keeps_shown_list:
  "((localStorage s ''videoHistory'' = None
      \<or> (\<exists>raw. localStorage s ''videoHistory'' = Some raw \<and> JSON_parse E raw = Inr (JArray [])))
     \<longrightarrow> history (loadFromLocalStorage E s) = history s)
   \<and> (history s \<noteq> [] \<longrightarrow>
        history (loadFromLocalStorage E s) \<noteq> [] \<and> history (loadHistory E uid s) \<noteq> [])"
proof -
  have a: "history (loadFromLocalStorage E s) = history s"
    if "localStorage s ''videoHistory'' = None
        \<or> (\<exists>raw. localStorage s ''videoHistory'' = Some raw \<and> JSON_parse E raw = Inr (JArray []))"
    using that by (auto simp add: loadFromLocalStorage_def effect_defs)
  have b: "history (loadFromLocalStorage E t) \<noteq> []" if "history t \<noteq> []" for t
    using that by (rule loadFromLocalStorage_nonempty)
  have c: "history (loadHistory E uid s) \<noteq> []" if "history s \<noteq> []"
    using that b [of "called (GetVideoHistory uid) s"]
      b [of "console_error ''Failed to fetch video history'' (called (GetVideoHistory uid) s)"]
      b [of s]
    by (auto simp add: loadHistory_def Let_def effect_defs split: option.splits)
  show ?thesis using a b c by blast
qed

theorem local_read_keeps_shown_list_witness:
  "localStorage (showing_both Map.empty) ''videoHistory'' = None
   \<and> history (loadFromLocalStorage remote_down (showing_both Map.empty)) = [item_a, item_b]
   \<and> localStorage (showing_both [''videoHistory'' \<mapsto> ''[]'']) ''videoHistory'' = Some ''[]''
   \<and> JSON_parse remote_down ''[]'' = Inr (JArray [])
   \<and> history (loadFromLocalStorage remote_down (showing_both [''videoHistory'' \<mapsto> ''[]''])) = [item_a, item_b]
   \<and> history (loadHistory remote_down ''user-1'' (showing_both [''videoHistory'' \<mapsto> ''[]''])) \<noteq> []"
proof -
  have a1: "localStorage (showing_both Map.empty) ''videoHistory'' = None"
    by (simp add: showing_both_def mounted_def setHistory_def)
  have b1: "localStorage (showing_both [''videoHistory'' \<mapsto> ''[]'']) ''videoHistory'' = Some ''[]''"
    by (simp add: showing_both_def mounted_def setHistory_def)
  have b2: "JSON_parse remote_down ''[]'' = Inr (JArray [])"
    by (simp add: remote_down_def example_parse_def saved_a_def)
  have s: "history (showing_both st) = [item_a, item_b]" for st
    by (simp add: showing_both_def mounted_def setHistory_def)
  have r1: "history (loadFromLocalStorage remote_down (showing_both Map.empty)) = [item_a, item_b]"
    using local_read_keeps_shown_list [of "showing_both Map.empty" remote_down] a1 s by simp
  have r2: "history (loadFromLocalStorage remote_down (showing_both [''videoHistory'' \<mapsto> ''[]'']))
            = [item_a, item_b]"
    using local_read_keeps_shown_list [of "showing_both [''videoHistory'' \<mapsto> ''[]'']" remote_down] b1 b2 s
    by simp
  have r3: "history (loadHistory remote_down ''user-1'' (showing_both [''videoHistory'' \<mapsto> ''[]''])) \<noteq> []"
    using local_read_keeps_shown_list
      [of "showing_both [''videoHistory'' \<mapsto> ''[]'']" remote_down "''user-1''"] s
    by simp
  show ?thesis using a1 b1 b2 r1 r2 r3 by simp
qed

subsection \<open>Opening a video in the browser\<close>

text \<open>The host, on URLs with upper case, userinfo and a port, and on a string with no scheme.\<close>

lemma spec_url_host_examples:
  "spec_url_host ''https://www.youtube.com/watch?v=a'' = ''www.youtube.com''"
  "spec_url_host ''https://YOUTUBE.COM/watch?v=a'' = ''youtube.com''"
  "spec_url_host ''https://youtube.com@evil.example:8080/x'' = ''evil.example''"
  "spec_url_host ''youtube.com/watch'' = []"
  by (simp_all add: spec_url_host_def url_authority_def ascii_lower_def)

text \<open>
  Claim C8 says that the URL is opened only when its host matches one of the whitelisted
  host patterns. The handler never isolates a host: it asks whether the whole string
  contains \<^verbatim>\<open>youtube.com\<close> or \<^verbatim>\<open>youtu.be\<close>. A URL of the host
  \<^verbatim>\<open>example.org\<close>, which contains neither name, is opened because its query
  carries \<^verbatim>\<open>youtu.be\<close>.
\<close>

theorem open_ignores_host_counterexample:
  "opened (handleOpenYoutubeVideo ''https://example.org/watch?ref=youtu.be'' (mounted Map.empty))
     = [(''https://example.org/watch?ref=youtu.be'', ''_blank'')]
   \<and> spec_url_host ''https://example.org/watch?ref=youtu.be'' = ''example.org''
   \<and> \<not> includes_str ''example.org'' ''youtube.com''
   \<and> \<not> includes_str ''example.org'' ''youtu.be''
   \<and> \<not> spec_host_whitelisted ''https://example.org/watch?ref=youtu.be''"
  by (simp add: handleOpenYoutubeVideo_def window_open_def mounted_def
      spec_host_whitelisted_def spec_url_host_def url_authority_def ascii_lower_def)

text \<open>
  Claim C8, as the component has it. \<^verbatim>\<open>handleOpenYoutubeVideo\<close> opens the URL (in a
  new tab) exactly when the URL, as a string, contains \<^verbatim>\<open>youtube.com\<close> or
  \<^verbatim>\<open>youtu.be\<close> somewhere, in these letters; a URL that contains neither is not
  opened. The list is not changed.
\<close>

theorem open_iff_url_contains_pattern:
  "opened (handleOpenYoutubeVideo u s) =
     (if (\<exists>ps ss. u = ps @ ''youtube.com'' @ ss) \<or> (\<exists>ps ss. u = ps @ ''youtu.be'' @ ss)
      then opened s @ [(u, ''_blank'')] else opened s)
   \<and> history (handleOpenYoutubeVideo u s) = history s"
proof -
  have e: "((u \<noteq> [] \<and> includes_str u ''youtube.com'') \<or> includes_str u ''youtu.be'')
           \<longleftrightarrow> (includes_str u ''youtube.com'' \<or> includes_str u ''youtu.be'')"
    by (cases u) auto
  have a: "opened (handleOpenYoutubeVideo u s) =
     (if (\<exists>ps ss. u = ps @ ''youtube.com'' @ ss) \<or> (\<exists>ps ss. u = ps @ ''youtu.be'' @ ss)
      then opened s @ [(u, ''_blank'')] else opened s)"
    unfolding handleOpenYoutubeVideo_def e includes_str_iff by (simp add: window_open_def)
  have d: "history (handleOpenYoutubeVideo u s) = history s"
    by (simp add: handleOpenYoutubeVideo_def window_open_def)
  show ?thesis using a d by (rule conjI)
qed

theorem open_iff_url_contains_pattern_witness:
  "opened (handleOpenYoutubeVideo ''https://youtu.be/b'' (mounted Map.empty)) = [(''https://youtu.be/b'', ''_blank'')]
   \<and> opened (handleOpenYoutubeVideo ''https://example.org/b'' (mounted Map.empty)) = []
   \<and> opened (handleOpenYoutubeVideo ''https://YOUTUBE.COM/watch?v=a'' (mounted Map.empty)) = []"
proof -
  note yes = open_iff_url_contains_pattern [of "''https://youtu.be/b''" "mounted Map.empty", THEN conjunct1]
  note no = open_iff_url_contains_pattern [of "''https://example.org/b''" "mounted Map.empty", THEN conjunct1]
  note upper = open_iff_url_contains_pattern [of "''https://YOUTUBE.COM/watch?v=a''" "mounted Map.empty", THEN conjunct1]
  have o: "opened (mounted Map.empty) = []" by (simp add: mounted_def)
  have "includes_str ''https://youtu.be/b'' ''youtu.be''" by simp
  then have y: "(\<exists>ps ss. ''https://youtu.be/b'' = ps @ ''youtube.com'' @ ss)
                \<or> (\<exists>ps ss. ''https://youtu.be/b'' = ps @ ''youtu.be'' @ ss)"
    unfolding includes_str_iff by (rule disjI2)
  from yes y have r1: "opened (handleOpenYoutubeVideo ''https://youtu.be/b'' (mounted Map.empty))
            = [(''https://youtu.be/b'', ''_blank'')]"
    by (simp only: if_True o append_Nil)
  have "\<not> includes_str ''https://example.org/b'' ''youtube.com''"
    and "\<not> includes_str ''https://example.org/b'' ''youtu.be''"
    by simp_all
  then have n: "\<not> ((\<exists>ps ss. ''https://example.org/b'' = ps @ ''youtube.com'' @ ss)
                  \<or> (\<exists>ps ss. ''https://example.org/b'' = ps @ ''youtu.be'' @ ss))"
    unfolding includes_str_iff by blast
  from no n have r2: "opened (handleOpenYoutubeVideo ''https://example.org/b'' (mounted Map.empty)) = []"
    by (simp only: if_False o)
  have "\<not> includes_str ''https://YOUTUBE.COM/watch?v=a'' ''youtube.com''"
    and "\<not> includes_str ''https://YOUTUBE.COM/watch?v=a'' ''youtu.be''"
    by simp_all
  then have n': "\<not> ((\<exists>ps ss. ''https://YOUTUBE.COM/watch?v=a'' = ps @ ''youtube.com'' @ ss)
                  \<or> (\<exists>ps ss. ''https://YOUTUBE.COM/watch?v=a'' = ps @ ''youtu.be'' @ ss))"
    unfolding includes_str_iff by blast
  from upper n' have r3: "opened (handleOpenYoutubeVideo ''https://YOUTUBE.COM/watch?v=a'' (mounted Map.empty)) = []"
    by (simp only: if_False o)
  from r1 r2 r3 show ?thesis by (intro conjI)
qed

end
